theory Spec2Isabelle
  imports Main
begin

section \<open>The Application resource\<close>

text \<open>
  The controller of \<^verbatim>\<open>controllers/application_controller.go\<close> watches resources of
  kind Application and mirrors each of them into one target namespace. The records below
  are the parts of the Argo CD type \<^verbatim>\<open>appv1.Application\<close> that the controller reads
  or writes. Go promotes the fields of the embedded \<^verbatim>\<open>TypeMeta\<close> and
  \<^verbatim>\<open>ObjectMeta\<close>, and the source reads them that way (\<^verbatim>\<open>resource.Name\<close>,
  \<^verbatim>\<open>resource.Kind\<close>, \<^verbatim>\<open>app.ResourceVersion\<close>), so the record is flat.
  A Go \<^verbatim>\<open>map[string]string\<close> is a partial function, the finalizer slice is a list,
  the pointer \<^verbatim>\<open>DeletionTimestamp\<close> is an option (\<open>None\<close> is \<^verbatim>\<open>nil\<close>).

  Modelled from the spec: the declaration of \<^verbatim>\<open>appv1.ApplicationSpec\<close> belongs to the
  Argo CD dependency and is not under src/. The spec describes the specification payload
  as the destination namespace plus opaque application-specific fields. The controller
  reads one field of it, \<^verbatim>\<open>Spec.Destination.Namespace\<close>, and otherwise copies and
  compares the specification as a whole. So the destination's namespace is a field of the
  model, and all the other fields of the specification, at every depth (the source with
  its Helm, Kustomize and directory parts, the destination's server and name, the
  project, the sync policy, the ignored differences, the info list, the revision history
  limit), are one value \<open>Opaque\<close> of a type parameter \<open>'p\<close>. Nothing is dropped: two
  specifications are equal in the model exactly when their destination namespaces are
  equal and all their other fields are equal. \<open>'p\<close> is any type of structural values
  (a pointer as an option, a slice or map that may be \<^verbatim>\<open>nil\<close> as an option of a list
  or map), on which \<^verbatim>\<open>reflect.DeepEqual\<close> is equality. Go gives every type a zero
  value; the zero value of \<open>'p\<close> is \<open>default\<close> of the type class of that name.
\<close>

record ApplicationDestination =
  Namespace :: string

record 'p ApplicationSpec =
  Destination :: ApplicationDestination
  Opaque :: 'p

record NamespacedName =
  Namespace :: string
  Name :: string

record 'p Application =
  APIVersion :: string
  Kind :: string
  Name :: string
  Namespace :: string
  Labels :: "string \<rightharpoonup> string"
  Annotations :: "string \<rightharpoonup> string"
  Finalizers :: "string list"
  ResourceVersion :: string
  DeletionTimestamp :: "nat option"
  Spec :: "'p ApplicationSpec"

text \<open>The zero value \<^verbatim>\<open>appv1.Application{}\<close>.\<close>

definition emptySpec :: "'p::default ApplicationSpec" where
  "emptySpec =
     \<lparr>Destination = \<lparr>ApplicationDestination.Namespace = []\<rparr>, Opaque = default\<rparr>"

definition emptyApplication :: "'p::default Application" where
  "emptyApplication =
     \<lparr>APIVersion = [], Kind = [], Name = [], Namespace = [],
      Labels = Map.empty, Annotations = Map.empty, Finalizers = [],
      ResourceVersion = [], DeletionTimestamp = None, Spec = emptySpec\<rparr>"

section \<open>Errors\<close>

text \<open>
  A Go \<^verbatim>\<open>error\<close> is either an API status error, which carries a reason, or a plain
  \<^verbatim>\<open>errors.New\<close> string. A value of interface type \<^verbatim>\<open>error\<close> may be \<^verbatim>\<open>nil\<close>:
  that is \<open>None\<close> of \<open>error option\<close>.
\<close>

datatype StatusReason =
    StatusReasonUnknown
  | StatusReasonNotFound
  | StatusReasonAlreadyExists
  | StatusReasonConflict
  | StatusReasonInvalid
  | StatusReasonServiceUnavailable
  | StatusReasonInternalError

datatype error = StatusError StatusReason string | errorString string

fun ReasonForError :: "error option \<Rightarrow> StatusReason" where
  "ReasonForError (Some (StatusError reason msg)) = reason"
| "ReasonForError (Some (errorString msg)) = StatusReasonUnknown"
| "ReasonForError None = StatusReasonUnknown"

text \<open>
  Modelled from the spec: \<^verbatim>\<open>kerrors.IsNotFound\<close> (apimachinery) and
  \<^verbatim>\<open>client.IgnoreNotFound\<close> (controller-runtime) are dependencies, not under src/.
  The spec singles out \<^verbatim>\<open>NotFound\<close> among the faults of the store; an error is
  NotFound when its reason says so, and \<^verbatim>\<open>IgnoreNotFound\<close> turns exactly those
  errors into \<^verbatim>\<open>nil\<close> and returns every other error as it is.
\<close>

definition IsNotFound :: "error option \<Rightarrow> bool" where
  "IsNotFound err = (ReasonForError err = StatusReasonNotFound)"

definition IgnoreNotFound :: "error option \<Rightarrow> error option" where
  "IgnoreNotFound err = (if IsNotFound err then None else err)"

section \<open>Finalizers\<close>

text \<open>
  Modelled from the spec: the three helpers of \<^verbatim>\<open>controllerutil\<close>
  (controller-runtime v0.10.0) are a dependency, not under src/. The spec's lifecycle
  markers are a set of strings that the controller tests, adds to and removes from. On the
  Go slice, \<^verbatim>\<open>AddFinalizer\<close> appends the finalizer unless the slice has it already and
  \<^verbatim>\<open>RemoveFinalizer\<close> drops every occurrence and keeps the order of the rest.
  The two finalizer names are the package variables of the controller.
\<close>

definition defaultFinalizer :: string where
  "defaultFinalizer = ''argoproj.io/finalizer''"

definition argoFinalizer :: string where
  "argoFinalizer = ''resources-finalizer.argocd.argoproj.io''"

definition ContainsFinalizer :: "'p Application \<Rightarrow> string \<Rightarrow> bool" where
  "ContainsFinalizer o' finalizer = (finalizer \<in> set (Finalizers o'))"

definition AddFinalizer :: "'p Application \<Rightarrow> string \<Rightarrow> 'p Application" where
  "AddFinalizer o' finalizer =
     (if finalizer \<in> set (Finalizers o') then o'
      else o'\<lparr>Finalizers := Finalizers o' @ [finalizer]\<rparr>)"

definition RemoveFinalizer :: "'p Application \<Rightarrow> string \<Rightarrow> 'p Application" where
  "RemoveFinalizer o' finalizer =
     o'\<lparr>Finalizers := filter (\<lambda>f. f \<noteq> finalizer) (Finalizers o')\<rparr>"

section \<open>The store and the reconciler\<close>

text \<open>
  The embedded \<^verbatim>\<open>client.Client\<close> is the controller's only access to the cluster;
  it is the capability interface of the spec (get, create, update, delete).
  It is a parameter of the model: four operations over a store state of any type \<open>'s\<close>.
  A read answers with the object or an error. A successful \<^verbatim>\<open>Create\<close> or
  \<^verbatim>\<open>Update\<close> answers with the object as stored, which the client library decodes
  back into the caller's variable; the model keeps the stored object's new resource
  version, the token a later write of the same variable sends on.
  \<^verbatim>\<open>Delete\<close> answers with an error or \<^verbatim>\<open>nil\<close> and leaves the caller's variable alone.

  The package variable \<^verbatim>\<open>appNamespace\<close> is read once from the configuration
  (\<^verbatim>\<open>config.EnvConfig.ApplicationNamespace\<close>, default \<^verbatim>\<open>argocd\<close>); it travels with
  the reconciler. Logging has no effect on the cluster and is left out.
\<close>

record ('p, 's) client =
  get :: "NamespacedName \<Rightarrow> 's \<Rightarrow> (error + 'p Application) \<times> 's"
  create :: "'p Application \<Rightarrow> 's \<Rightarrow> (error + string) \<times> 's"
  update :: "'p Application \<Rightarrow> 's \<Rightarrow> (error + string) \<times> 's"
  delete :: "'p Application \<Rightarrow> 's \<Rightarrow> error option \<times> 's"

record ('p, 's) ApplicationReconciler =
  Client :: "('p, 's) client"
  appNamespace :: string

text \<open>
  Every call of the client is recorded with its outcome, in the order of issue, next to
  the store state: the claims speak of which calls a cycle issues and in which order.
  \<open>errorOf\<close> is the Go \<^verbatim>\<open>error\<close> of an answer: \<^verbatim>\<open>nil\<close> for a success.
\<close>

datatype 'p call =
    GetCall NamespacedName
  | CreateCall "'p Application"
  | UpdateCall "'p Application"
  | DeleteCall "'p Application"

record ('p, 's) world =
  store :: 's
  calls :: "('p call \<times> error option) list"

definition errorOf :: "error + 'a \<Rightarrow> error option" where
  "errorOf answer = (case answer of Inl e \<Rightarrow> Some e | Inr v \<Rightarrow> None)"

definition Get ::
  "('p, 's) ApplicationReconciler \<Rightarrow> NamespacedName \<Rightarrow> 'p Application \<Rightarrow> ('p, 's) world
     \<Rightarrow> (error option \<times> 'p Application) \<times> ('p, 's) world" where
  "Get r key obj w =
     (case get (Client r) key (store w) of
        (answer, s) \<Rightarrow>
          ((errorOf answer, (case answer of Inl e \<Rightarrow> obj | Inr found \<Rightarrow> found)),
           \<lparr>store = s, calls = calls w @ [(GetCall key, errorOf answer)]\<rparr>))"

definition Create ::
  "('p, 's) ApplicationReconciler \<Rightarrow> 'p Application \<Rightarrow> ('p, 's) world
     \<Rightarrow> (error option \<times> 'p Application) \<times> ('p, 's) world" where
  "Create r obj w =
     (case create (Client r) obj (store w) of
        (answer, s) \<Rightarrow>
          ((errorOf answer,
            (case answer of Inl e \<Rightarrow> obj | Inr rv \<Rightarrow> obj\<lparr>ResourceVersion := rv\<rparr>)),
           \<lparr>store = s, calls = calls w @ [(CreateCall obj, errorOf answer)]\<rparr>))"

definition Update ::
  "('p, 's) ApplicationReconciler \<Rightarrow> 'p Application \<Rightarrow> ('p, 's) world
     \<Rightarrow> (error option \<times> 'p Application) \<times> ('p, 's) world" where
  "Update r obj w =
     (case update (Client r) obj (store w) of
        (answer, s) \<Rightarrow>
          ((errorOf answer,
            (case answer of Inl e \<Rightarrow> obj | Inr rv \<Rightarrow> obj\<lparr>ResourceVersion := rv\<rparr>)),
           \<lparr>store = s, calls = calls w @ [(UpdateCall obj, errorOf answer)]\<rparr>))"

definition Delete ::
  "('p, 's) ApplicationReconciler \<Rightarrow> 'p Application \<Rightarrow> ('p, 's) world
     \<Rightarrow> error option \<times> ('p, 's) world" where
  "Delete r obj w =
     (case delete (Client r) obj (store w) of
        (err, s) \<Rightarrow> (err, \<lparr>store = s, calls = calls w @ [(DeleteCall obj, err)]\<rparr>))"

section \<open>The controller\<close>

definition hasDefaultFinalizer :: "'p Application \<Rightarrow> bool" where
  "hasDefaultFinalizer resource = ContainsFinalizer resource defaultFinalizer"

definition hasArgoFinalizer :: "'p Application \<Rightarrow> bool" where
  "hasArgoFinalizer resource = ContainsFinalizer resource argoFinalizer"

definition InjectDefaultFinalizer ::
  "('p, 's) ApplicationReconciler \<Rightarrow> 'p Application \<Rightarrow> ('p, 's) world
     \<Rightarrow> (error option \<times> 'p Application) \<times> ('p, 's) world" where
  "InjectDefaultFinalizer r resource w =
     Update r (AddFinalizer resource defaultFinalizer) w"

text \<open>
  \<^verbatim>\<open>generateApplication\<close> returns a fresh object and an error that is always \<^verbatim>\<open>nil\<close>.
  The fields it does not name keep their zero value: no finalizer, no resource version,
  no deletion timestamp.
\<close>

definition generateApplication ::
  "'p Application \<Rightarrow> string \<Rightarrow> 'p Application \<times> error option" where
  "generateApplication resource namespace =
     (\<lparr>APIVersion = APIVersion resource,
       Kind = Kind resource,
       Name = Name resource,
       Namespace = namespace,
       Labels = Labels resource,
       Annotations = Annotations resource,
       Finalizers = [],
       ResourceVersion = [],
       DeletionTimestamp = None,
       Spec = Spec resource\<rparr>, None)"

definition finalize ::
  "('p, 's) ApplicationReconciler \<Rightarrow> 'p Application \<Rightarrow> ('p, 's) world
     \<Rightarrow> error option \<times> ('p, 's) world" where
  "finalize r resource w =
     (case generateApplication resource (appNamespace r) of
        (desiredApplication, err) \<Rightarrow>
          if err \<noteq> None then (err, w)
          else (case Delete r desiredApplication w of
                  (err, w1) \<Rightarrow> if err \<noteq> None then (err, w1) else (None, w1)))"

text \<open>
  \<^verbatim>\<open>processDefaultFinalization\<close> works on the caller's object through a pointer; the
  model returns the object as the function leaves it, next to the error.
\<close>

definition processDefaultFinalization ::
  "('p, 's) ApplicationReconciler \<Rightarrow> 'p Application
     \<Rightarrow> ('p Application \<Rightarrow> ('p, 's) world \<Rightarrow> error option \<times> ('p, 's) world)
     \<Rightarrow> ('p, 's) world \<Rightarrow> (error option \<times> 'p Application) \<times> ('p, 's) world" where
  "processDefaultFinalization r resource finalizer w =
     (if ContainsFinalizer resource defaultFinalizer then
        (case finalizer resource w of
           (err, w1) \<Rightarrow>
             if err \<noteq> None then ((err, resource), w1)
             else
               (case Update r (RemoveFinalizer resource defaultFinalizer) w1 of
                  ((err, resource1), w2) \<Rightarrow>
                    if err \<noteq> None then ((err, resource1), w2)
                    else if hasArgoFinalizer resource1 then
                      (case Update r (RemoveFinalizer resource1 argoFinalizer) w2 of
                         ((err, resource2), w3) \<Rightarrow>
                           if err \<noteq> None then ((err, resource2), w3)
                           else ((None, resource2), w3))
                    else ((None, resource1), w2)))
      else ((None, resource), w))"

text \<open>The message of the validation error is Cyrillic in the source; it is transliterated
  here.\<close>

definition validate :: "'p Application \<Rightarrow> error option" where
  "validate resource =
     (if ApplicationDestination.Namespace (Destination (Spec resource)) \<noteq> Namespace resource
      then Some (errorString ''ignoriruyu resurs iz-za nesovpadeniya namespace'')
      else None)"

text \<open>
  Lines 203 to 210 of \<^verbatim>\<open>createOrUpdateApplication\<close>: the value of the local variable
  \<^verbatim>\<open>desiredApplication\<close> at the moment the lookup is issued.
\<close>

definition desiredApplication ::
  "('p, 's) ApplicationReconciler \<Rightarrow> 'p Application \<Rightarrow> 'p Application \<times> error option" where
  "desiredApplication r resource =
     (case generateApplication resource (appNamespace r) of
        (generated, err) \<Rightarrow>
          if err \<noteq> None then (generated, err)
          else if hasArgoFinalizer resource then (AddFinalizer generated argoFinalizer, None)
          else (generated, None))"

text \<open>
  The lookup writes into a fresh zero object \<^verbatim>\<open>app\<close>; when it fails, \<^verbatim>\<open>app\<close> stays
  zero. The \<^verbatim>\<open>else\<close> branch of the source is taken whenever the lookup did not fail
  with NotFound, that is also when it failed with another error.
  \<^verbatim>\<open>reflect.DeepEqual\<close> on the two specifications is equality of the two whole
  specification values, the opaque fields included.
\<close>

definition createOrUpdateApplication ::
  "('p::default, 's) ApplicationReconciler \<Rightarrow> 'p Application \<Rightarrow> ('p, 's) world
     \<Rightarrow> error option \<times> ('p, 's) world" where
  "createOrUpdateApplication r resource w =
     (case desiredApplication r resource of
        (desired, err) \<Rightarrow>
          if err \<noteq> None then (err, w)
          else
            (case Get r \<lparr>NamespacedName.Namespace = Namespace desired,
                         NamespacedName.Name = Name desired\<rparr> emptyApplication w of
               ((err, app), w1) \<Rightarrow>
                 if err \<noteq> None \<and> IsNotFound err then
                   (case Create r desired w1 of
                      ((err, created), w2) \<Rightarrow>
                        if err \<noteq> None then (err, w2) else (None, w2))
                 else if Spec app \<noteq> Spec desired then
                   (case Update r (desired\<lparr>ResourceVersion := ResourceVersion app\<rparr>) w1 of
                      ((err, updated), w2) \<Rightarrow>
                        if err \<noteq> None then (err, w2) else (None, w2))
                 else (None, w1)))"

text \<open>\<^verbatim>\<open>ctrl.Result\<close>; the controller only ever returns the zero value.\<close>

record Result =
  Requeue :: bool
  RequeueAfter :: nat

definition emptyResult :: Result where
  "emptyResult = \<lparr>Requeue = False, RequeueAfter = 0\<rparr>"

definition Reconcile ::
  "('p::default, 's) ApplicationReconciler \<Rightarrow> NamespacedName \<Rightarrow> ('p, 's) world
     \<Rightarrow> (Result \<times> error option) \<times> ('p, 's) world" where
  "Reconcile r req w =
     (case Get r req emptyApplication w of
        ((err, desiredResource), w1) \<Rightarrow>
          if err \<noteq> None then
            (if IsNotFound err then ((emptyResult, None), w1)
             else ((emptyResult, IgnoreNotFound err), w1))
          else if Namespace desiredResource = appNamespace r then
            ((emptyResult, None), w1)
          else if DeletionTimestamp desiredResource \<noteq> None then
            (case processDefaultFinalization r desiredResource (finalize r) w1 of
               ((err, finalized), w2) \<Rightarrow>
                 if err \<noteq> None then ((emptyResult, IgnoreNotFound err), w2)
                 else ((emptyResult, None), w2))
          else if \<not> hasDefaultFinalizer desiredResource then
            (case InjectDefaultFinalizer r desiredResource w1 of
               ((err, injected), w2) \<Rightarrow>
                 if err \<noteq> None then ((emptyResult, IgnoreNotFound err), w2)
                 else ((emptyResult, None), w2))
          else
            (let err = validate desiredResource in
               if err \<noteq> None then ((emptyResult, IgnoreNotFound err), w1)
               else
                 (case createOrUpdateApplication r desiredResource w1 of
                    (err, w2) \<Rightarrow>
                      if err \<noteq> None then ((emptyResult, IgnoreNotFound err), w2)
                      else ((emptyResult, None), w2))))"

section \<open>Example inputs\<close>

text \<open>
  For the examples the opaque fields of a specification are instantiated with a small
  type: the source's repository URL, path and target revision, the destination's server,
  the project, and the sync policy, which is a pointer (\<open>None\<close> is \<^verbatim>\<open>nil\<close>) to a pair
  of flags (prune, self-heal). Its zero value has empty strings and no sync policy.
\<close>

datatype syncPolicy = SyncPolicy (prune: bool) (selfHeal: bool)

datatype fields =
  Fields (repoURL: string) (path: string) (targetRevision: string) (server: string)
    (project: string) (syncPolicy: "syncPolicy option")

instantiation fields :: default
begin

definition default_fields :: fields where
  "default_fields = Fields [] [] [] [] [] None"

instance ..

end

text \<open>
  A scripted client for the examples: a read is answered by a table from keys to
  answers, every create, update and delete by one fixed answer each; its store state is
  \<open>unit\<close>. The example resource is the one of the specification's scenario A:
  Application \<^verbatim>\<open>foo\<close> in namespace \<^verbatim>\<open>team-a\<close>, destined for \<^verbatim>\<open>team-a\<close>;
  the target namespace is the default \<^verbatim>\<open>argocd\<close>.
\<close>

definition scripted ::
  "(NamespacedName \<Rightarrow> error + fields Application) \<Rightarrow> (error + string) \<Rightarrow> (error + string)
     \<Rightarrow> error option \<Rightarrow> (fields, unit) client" where
  "scripted g c u d =
     \<lparr>get = (\<lambda>key s. (g key, s)), create = (\<lambda>obj s. (c, s)),
      update = (\<lambda>obj s. (u, s)), delete = (\<lambda>obj s. (d, s))\<rparr>"

definition byNamespace ::
  "fields Application \<Rightarrow> (error + fields Application) \<Rightarrow> NamespacedName
     \<Rightarrow> error + fields Application" where
  "byNamespace source mirror key =
     (if NamespacedName.Namespace key = ''argocd'' then mirror else Inr source)"

definition argocd :: "(fields, unit) client \<Rightarrow> (fields, unit) ApplicationReconciler" where
  "argocd c = \<lparr>Client = c, appNamespace = ''argocd''\<rparr>"

definition idle :: "(fields, unit) world" where
  "idle = \<lparr>store = (), calls = []\<rparr>"

definition fooKey :: NamespacedName where
  "fooKey = \<lparr>NamespacedName.Namespace = ''team-a'', NamespacedName.Name = ''foo''\<rparr>"

definition mirrorKey :: NamespacedName where
  "mirrorKey = \<lparr>NamespacedName.Namespace = ''argocd'', NamespacedName.Name = ''foo''\<rparr>"

definition fooFields :: fields where
  "fooFields =
     Fields ''https://git.example/foo.git'' ''deploy'' ''main''
       ''https://kubernetes.default.svc'' ''default'' None"

definition fooSpec :: "fields ApplicationSpec" where
  "fooSpec =
     \<lparr>Destination = \<lparr>ApplicationDestination.Namespace = ''team-a''\<rparr>, Opaque = fooFields\<rparr>"

definition foo :: "fields Application" where
  "foo =
     \<lparr>APIVersion = ''argoproj.io/v1alpha1'', Kind = ''Application'', Name = ''foo'',
      Namespace = ''team-a'', Labels = Map.empty, Annotations = Map.empty, Finalizers = [],
      ResourceVersion = ''7'', DeletionTimestamp = None, Spec = fooSpec\<rparr>"

text \<open>
  Variants of \<^verbatim>\<open>foo\<close>: with the controller's own finalizer; with both finalizers and a
  deletion timestamp; with the external finalizer alone and a deletion timestamp; with a
  destination namespace other than its own. And three mirrors in \<^verbatim>\<open>argocd\<close>: one in
  sync with \<^verbatim>\<open>foo\<close>; one that differs from \<^verbatim>\<open>foo\<close> in the sync policy alone; one
  with an older project and the external finalizer.
\<close>

definition marked :: "fields Application" where
  "marked = foo\<lparr>Finalizers := [defaultFinalizer]\<rparr>"

definition deleting :: "fields Application" where
  "deleting =
     foo\<lparr>Finalizers := [defaultFinalizer, argoFinalizer], DeletionTimestamp := Some 1700000000\<rparr>"

definition released :: "fields Application" where
  "released = foo\<lparr>Finalizers := [argoFinalizer], DeletionTimestamp := Some 1700000000\<rparr>"

definition misdirected :: "fields Application" where
  "misdirected =
     marked\<lparr>Spec := fooSpec\<lparr>Destination :=
       \<lparr>ApplicationDestination.Namespace = ''team-b''\<rparr>\<rparr>\<rparr>"

definition syncedMirror :: "fields Application" where
  "syncedMirror = foo\<lparr>Namespace := ''argocd'', ResourceVersion := ''41''\<rparr>"

definition driftedMirror :: "fields Application" where
  "driftedMirror =
     syncedMirror\<lparr>Spec := fooSpec\<lparr>Opaque :=
       Fields ''https://git.example/foo.git'' ''deploy'' ''main''
         ''https://kubernetes.default.svc'' ''default'' (Some (SyncPolicy True False))\<rparr>\<rparr>"

definition liveMirror :: "fields Application" where
  "liveMirror =
     foo\<lparr>Namespace := ''argocd'', Finalizers := [argoFinalizer], ResourceVersion := ''41'',
         Spec := fooSpec\<lparr>Opaque :=
           Fields ''https://git.example/foo.git'' ''deploy'' ''main''
             ''https://kubernetes.default.svc'' ''legacy'' None\<rparr>\<rparr>"

definition notFound :: error where
  "notFound = StatusError StatusReasonNotFound ''applications.argoproj.io foo not found''"

definition invalid :: error where
  "invalid = StatusError StatusReasonInvalid ''metadata.resourceVersion: must be specified''"

definition unavailable :: error where
  "unavailable = StatusError StatusReasonServiceUnavailable ''the server is currently unavailable''"

section \<open>The calls of the client\<close>

lemmas example_defs =
  scripted_def byNamespace_def argocd_def idle_def fooKey_def mirrorKey_def fooFields_def
  fooSpec_def foo_def marked_def deleting_def released_def misdirected_def syncedMirror_def
  driftedMirror_def liveMirror_def notFound_def invalid_def unavailable_def

lemmas result_defs = errorOf_def IgnoreNotFound_def IsNotFound_def emptyResult_def

lemmas controller_defs =
  Reconcile_def processDefaultFinalization_def finalize_def createOrUpdateApplication_def
  desiredApplication_def generateApplication_def validate_def InjectDefaultFinalizer_def
  Get_def Create_def Update_def Delete_def

lemmas finalizer_defs =
  hasDefaultFinalizer_def hasArgoFinalizer_def ContainsFinalizer_def AddFinalizer_def
  RemoveFinalizer_def defaultFinalizer_def argoFinalizer_def

lemma Get_found:
  "get (Client r) key (store w) = (Inr found, s) \<Longrightarrow>
   Get r key obj w = ((None, found), \<lparr>store = s, calls = calls w @ [(GetCall key, None)]\<rparr>)"
  by (simp add: Get_def errorOf_def)

lemma Get_failed:
  "get (Client r) key (store w) = (Inl e, s) \<Longrightarrow>
   Get r key obj w = ((Some e, obj), \<lparr>store = s, calls = calls w @ [(GetCall key, Some e)]\<rparr>)"
  by (simp add: Get_def errorOf_def)

lemma Update_answer:
  "update (Client r) obj (store w) = (u, s) \<Longrightarrow>
   Update r obj w =
     ((errorOf u, (case u of Inl e \<Rightarrow> obj | Inr rv \<Rightarrow> obj\<lparr>ResourceVersion := rv\<rparr>)),
      \<lparr>store = s, calls = calls w @ [(UpdateCall obj, errorOf u)]\<rparr>)"
  by (simp add: Update_def)

lemma Create_answer:
  "create (Client r) obj (store w) = (c, s) \<Longrightarrow>
   Create r obj w =
     ((errorOf c, (case c of Inl e \<Rightarrow> obj | Inr rv \<Rightarrow> obj\<lparr>ResourceVersion := rv\<rparr>)),
      \<lparr>store = s, calls = calls w @ [(CreateCall obj, errorOf c)]\<rparr>)"
  by (simp add: Create_def)

lemma finalize_answer:
  "delete (Client r) (fst (generateApplication resource (appNamespace r))) (store w) = (d, s) \<Longrightarrow>
   finalize r resource w =
     (d, \<lparr>store = s,
          calls = calls w @ [(DeleteCall (fst (generateApplication resource (appNamespace r))), d)]\<rparr>)"
  by (simp add: finalize_def generateApplication_def Delete_def)

lemma argo_after_default_removed:
  "hasArgoFinalizer ((RemoveFinalizer resource defaultFinalizer)\<lparr>ResourceVersion := rv\<rparr>)
     = hasArgoFinalizer resource"
  by (auto simp add: finalizer_defs)

lemma desired_key:
  "snd (desiredApplication r resource) = None"
  "Namespace (fst (desiredApplication r resource)) = appNamespace r"
  "Name (fst (desiredApplication r resource)) = Name resource"
  "Spec (fst (desiredApplication r resource)) = Spec resource"
  by (simp_all add: desiredApplication_def generateApplication_def AddFinalizer_def)

lemma desired_payload:
  "fst (desiredApplication r resource) =
     (fst (generateApplication resource (appNamespace r)))
       \<lparr>Finalizers := (if hasArgoFinalizer resource then [argoFinalizer] else [])\<rparr>"
  by (simp add: desiredApplication_def generateApplication_def AddFinalizer_def)

text \<open>
  Equality of two specifications reads every field: the destination namespace and the
  opaque value that holds all the others.
\<close>

lemma spec_equality:
  "(a = (b :: 'p ApplicationSpec)) =
     (ApplicationDestination.Namespace (Destination a)
        = ApplicationDestination.Namespace (Destination b) \<and>
      Opaque a = Opaque b)"
  by (cases a, cases b) auto

text \<open>The two outcomes of a lookup that finds the mirror.\<close>

lemma lookup_equal:
  assumes "get (Client r) \<lparr>NamespacedName.Namespace = appNamespace r,
              NamespacedName.Name = Name resource\<rparr> (store w) = (Inr app, s)"
    and "Spec app = Spec resource"
  shows "createOrUpdateApplication r resource w =
       (None, \<lparr>store = s,
               calls = calls w @
                 [(GetCall \<lparr>NamespacedName.Namespace = appNamespace r,
                            NamespacedName.Name = Name resource\<rparr>, None)]\<rparr>)"
proof -
  obtain desired err where d: "desiredApplication r resource = (desired, err)"
    by (cases "desiredApplication r resource")
  with desired_key [of r resource]
  have k: "err = None" "Namespace desired = appNamespace r" "Name desired = Name resource"
    "Spec desired = Spec resource"
    by simp_all
  show ?thesis
    using assms by (simp add: createOrUpdateApplication_def d k Get_found)
qed

lemma lookup_differs:
  assumes "get (Client r) \<lparr>NamespacedName.Namespace = appNamespace r,
              NamespacedName.Name = Name resource\<rparr> (store w) = (Inr app, s)"
    and "Spec app \<noteq> Spec resource"
    and "update (Client r)
           ((fst (desiredApplication r resource))\<lparr>ResourceVersion := ResourceVersion app\<rparr>) s
           = (u, s')"
  shows "createOrUpdateApplication r resource w =
       (errorOf u,
        \<lparr>store = s',
         calls = calls w @
           [(GetCall \<lparr>NamespacedName.Namespace = appNamespace r,
                      NamespacedName.Name = Name resource\<rparr>, None),
            (UpdateCall ((fst (desiredApplication r resource))
                           \<lparr>ResourceVersion := ResourceVersion app\<rparr>), errorOf u)]\<rparr>)"
proof -
  obtain desired err where d: "desiredApplication r resource = (desired, err)"
    by (cases "desiredApplication r resource")
  with desired_key [of r resource]
  have k: "err = None" "Namespace desired = appNamespace r" "Name desired = Name resource"
    "Spec desired = Spec resource"
    by simp_all
  from assms(3) d
  have u: "update (Client r) (desired\<lparr>ResourceVersion := ResourceVersion app\<rparr>) s = (u, s')"
    by simp
  show ?thesis
    using assms(1,2) u by (simp add: createOrUpdateApplication_def d k Get_found Update_answer)
qed

text \<open>
  The calls of the teardown, whatever the store answers: the delete of the mirror comes
  first; the write that takes the controller's finalizer off the source follows only a
  successful delete; the write that takes the external finalizer off follows only a
  successful first write, and only when the source carries that finalizer.
\<close>

lemma finalization_steps:
  assumes "hasDefaultFinalizer resource"
  shows "\<exists>d rest.
     calls (snd (processDefaultFinalization r resource (finalize r) w)) =
       calls w @ (DeleteCall (fst (generateApplication resource (appNamespace r))), d) # rest \<and>
     (d \<noteq> None \<longrightarrow> rest = []) \<and>
     (d = None \<longrightarrow>
        (\<exists>u rest'.
           rest = (UpdateCall (RemoveFinalizer resource defaultFinalizer), u) # rest' \<and>
           (u \<noteq> None \<or> \<not> hasArgoFinalizer resource \<longrightarrow> rest' = []) \<and>
           (u = None \<and> hasArgoFinalizer resource \<longrightarrow>
              (\<exists>rv u'.
                 rest' =
                   [(UpdateCall
                       (RemoveFinalizer
                          ((RemoveFinalizer resource defaultFinalizer)\<lparr>ResourceVersion := rv\<rparr>)
                          argoFinalizer), u')]))))"
proof -
  let ?mirror = "fst (generateApplication resource (appNamespace r))"
  let ?first = "RemoveFinalizer resource defaultFinalizer"
  obtain d s1 where del: "delete (Client r) ?mirror (store w) = (d, s1)"
    by (cases "delete (Client r) ?mirror (store w)")
  let ?w1 = "\<lparr>store = s1, calls = calls w @ [(DeleteCall ?mirror, d)]\<rparr>"
  have fin: "finalize r resource w = (d, ?w1)"
    using del by (rule finalize_answer)
  have own: "ContainsFinalizer resource defaultFinalizer"
    using assms by (simp add: hasDefaultFinalizer_def)
  show ?thesis
  proof (cases d)
    case (Some e)
    then show ?thesis
      using fin own by (simp add: processDefaultFinalization_def)
  next
    case None
    obtain u s2 where upd: "update (Client r) ?first (store ?w1) = (u, s2)"
      by (cases "update (Client r) ?first (store ?w1)")
    note first = Update_answer [OF upd]
    show ?thesis
    proof (cases u)
      case (Inl e)
      then show ?thesis
        using fin own None first
        by (simp add: processDefaultFinalization_def errorOf_def)
    next
      case (Inr rv)
      show ?thesis
      proof (cases "hasArgoFinalizer resource")
        case False
        then show ?thesis
          using fin own None first Inr
          by (simp add: processDefaultFinalization_def errorOf_def argo_after_default_removed)
      next
        case True
        let ?second = "RemoveFinalizer (?first\<lparr>ResourceVersion := rv\<rparr>) argoFinalizer"
        obtain u' s3 where upd': "update (Client r) ?second s2 = (u', s3)"
          by (cases "update (Client r) ?second s2")
        let ?w2 = "\<lparr>store = s2,
          calls = calls w @ [(DeleteCall ?mirror, None), (UpdateCall ?first, None)]\<rparr>"
        have second: "Update r ?second ?w2 =
          ((errorOf u',
            (case u' of Inl e \<Rightarrow> ?second | Inr rv' \<Rightarrow> ?second\<lparr>ResourceVersion := rv'\<rparr>)),
           \<lparr>store = s3, calls = calls ?w2 @ [(UpdateCall ?second, errorOf u')]\<rparr>)"
          by (rule Update_answer) (simp add: upd')
        have "calls (snd (processDefaultFinalization r resource (finalize r) w)) =
            calls w @ [(DeleteCall ?mirror, None), (UpdateCall ?first, None),
                       (UpdateCall ?second, errorOf u')]"
          using fin own None first Inr True second
          by (simp add: processDefaultFinalization_def errorOf_def argo_after_default_removed)
        then show ?thesis
          using True by auto
      qed
    qed
  qed
qed

section \<open>Teardown of a source under deletion\<close>

text \<open>
  Claim C1. For a fetched source outside the target namespace whose deletion timestamp is
  set and which carries the controller's finalizer, the calls of the cycle after the fetch
  are, in this order: the delete of the mirror (the source's name in the target
  namespace); then, only if that delete succeeded, the update of the source without the
  controller's finalizer; then, only if that update succeeded and the source carries the
  external finalizer, one more update of the source without the external finalizer.
  Nothing else is called.
\<close>

theorem finalization_order:
  assumes "get (Client r) req (store w) = (Inr resource, s)"
    and "Namespace resource \<noteq> appNamespace r"
    and "DeletionTimestamp resource \<noteq> None"
    and "hasDefaultFinalizer resource"
  shows "\<exists>d rest.
     calls (snd (Reconcile r req w)) =
       calls w @ (GetCall req, None) #
         (DeleteCall (fst (generateApplication resource (appNamespace r))), d) # rest \<and>
     (d \<noteq> None \<longrightarrow> rest = []) \<and>
     (d = None \<longrightarrow>
        (\<exists>u rest'.
           rest = (UpdateCall (RemoveFinalizer resource defaultFinalizer), u) # rest' \<and>
           (u \<noteq> None \<or> \<not> hasArgoFinalizer resource \<longrightarrow> rest' = []) \<and>
           (u = None \<and> hasArgoFinalizer resource \<longrightarrow>
              (\<exists>rv u'.
                 rest' =
                   [(UpdateCall
                       (RemoveFinalizer
                          ((RemoveFinalizer resource defaultFinalizer)\<lparr>ResourceVersion := rv\<rparr>)
                          argoFinalizer), u')]))))"
proof -
  let ?w1 = "\<lparr>store = s, calls = calls w @ [(GetCall req, None)]\<rparr>"
  have "calls (snd (Reconcile r req w)) =
      calls (snd (processDefaultFinalization r resource (finalize r) ?w1))"
    using assms(1-3) by (simp add: Reconcile_def Get_found split: prod.splits)
  with finalization_steps [OF assms(4), of r ?w1] show ?thesis
    by simp
qed

text \<open>
  The specification's scenario D: \<^verbatim>\<open>foo\<close> under deletion with both finalizers, every
  call succeeds. The cycle deletes the mirror, writes the source with the external
  finalizer alone, then writes it with no finalizer, under the resource version the first
  write returned.
\<close>

theorem finalization_order_witness:
  "get (Client (argocd (scripted (byNamespace deleting (Inl notFound)) (Inr ''1'') (Inr ''8'') None)))
      fooKey (store idle) = (Inr deleting, ()) \<and>
   Namespace deleting \<noteq> appNamespace (argocd (scripted (byNamespace deleting (Inl notFound))
      (Inr ''1'') (Inr ''8'') None)) \<and>
   DeletionTimestamp deleting \<noteq> None \<and> hasDefaultFinalizer deleting \<and>
   calls (snd (Reconcile (argocd (scripted (byNamespace deleting (Inl notFound))
      (Inr ''1'') (Inr ''8'') None)) fooKey idle)) =
     [(GetCall fooKey, None),
      (DeleteCall (foo\<lparr>Namespace := ''argocd'', ResourceVersion := []\<rparr>), None),
      (UpdateCall (deleting\<lparr>Finalizers := [argoFinalizer]\<rparr>), None),
      (UpdateCall (deleting\<lparr>Finalizers := [], ResourceVersion := ''8''\<rparr>), None)]"
  using finalization_order
    [of "argocd (scripted (byNamespace deleting (Inl notFound)) (Inr ''1'') (Inr ''8'') None)"
        fooKey idle deleting "()"]
  by (simp add: example_defs finalizer_defs result_defs controller_defs)

text \<open>
  Claim C2. The claim says that an absent mirror does not stop the teardown. In the
  code it does: when the delete of the mirror answers NotFound, \<open>finalize\<close> returns that
  error, \<open>processDefaultFinalization\<close> returns it before any write to the source, and
  \<open>Reconcile\<close> turns it into success with \<open>IgnoreNotFound\<close>. On \<^verbatim>\<open>foo\<close> under
  deletion with an absent mirror the cycle is the fetch and the failed delete, the
  controller's finalizer stays on the source, and the framework is told the cycle is done.
\<close>

theorem absent_mirror_aborts_finalization:
  "Reconcile (argocd (scripted (byNamespace deleting (Inl notFound))
      (Inr ''1'') (Inr ''8'') (Some notFound))) fooKey idle =
     ((emptyResult, None),
      \<lparr>store = (),
       calls = [(GetCall fooKey, None),
                (DeleteCall (foo\<lparr>Namespace := ''argocd'', ResourceVersion := []\<rparr>),
                 Some notFound)]\<rparr>)"
  by (simp add: example_defs finalizer_defs result_defs controller_defs)

section \<open>Validation\<close>

text \<open>
  Claim C3, as amended. For a fetched live source outside the target namespace that
  carries the controller's finalizer and whose destination namespace is not its own,
  \<open>Reconcile\<close> issues no call after the fetch (nothing is mirrored) and returns the
  validation error to the framework: \<open>IgnoreNotFound\<close> lets pass every error that is not
  NotFound.
\<close>

theorem validation_failure_returned:
  assumes "get (Client r) req (store w) = (Inr resource, s)"
    and "Namespace resource \<noteq> appNamespace r"
    and "DeletionTimestamp resource = None"
    and "hasDefaultFinalizer resource"
    and "ApplicationDestination.Namespace (Destination (Spec resource)) \<noteq> Namespace resource"
  shows "Reconcile r req w =
    ((emptyResult, Some (errorString ''ignoriruyu resurs iz-za nesovpadeniya namespace'')),
     \<lparr>store = s, calls = calls w @ [(GetCall req, None)]\<rparr>)"
  using assms
  by (simp add: Reconcile_def Get_found validate_def IgnoreNotFound_def IsNotFound_def)

theorem validation_failure_returned_witness:
  "get (Client (argocd (scripted (byNamespace misdirected (Inl notFound)) (Inr ''1'') (Inr ''8'') None)))
      fooKey (store idle) = (Inr misdirected, ()) \<and>
   Namespace misdirected \<noteq> appNamespace (argocd (scripted (byNamespace misdirected (Inl notFound))
      (Inr ''1'') (Inr ''8'') None)) \<and>
   DeletionTimestamp misdirected = None \<and> hasDefaultFinalizer misdirected \<and>
   ApplicationDestination.Namespace (Destination (Spec misdirected)) \<noteq> Namespace misdirected \<and>
   Reconcile (argocd (scripted (byNamespace misdirected (Inl notFound))
      (Inr ''1'') (Inr ''8'') None)) fooKey idle =
    ((emptyResult, Some (errorString ''ignoriruyu resurs iz-za nesovpadeniya namespace'')),
     \<lparr>store = (), calls = [(GetCall fooKey, None)]\<rparr>)"
  using validation_failure_returned
    [of "argocd (scripted (byNamespace misdirected (Inl notFound)) (Inr ''1'') (Inr ''8'') None)"
        fooKey idle misdirected "()"]
  by (simp add: example_defs finalizer_defs)

text \<open>
  Claim C3 as stated fails: \<^verbatim>\<open>foo\<close> in \<^verbatim>\<open>team-a\<close>, live, with the controller's
  finalizer and destined for \<^verbatim>\<open>team-b\<close>, makes \<open>Reconcile\<close> return an error.
\<close>

theorem validation_failure_not_swallowed:
  "Namespace misdirected \<noteq> ''argocd'' \<and> DeletionTimestamp misdirected = None \<and>
   hasDefaultFinalizer misdirected \<and>
   ApplicationDestination.Namespace (Destination (Spec misdirected)) \<noteq> Namespace misdirected \<and>
   snd (fst (Reconcile (argocd (scripted (byNamespace misdirected (Inl notFound))
      (Inr ''1'') (Inr ''8'') None)) fooKey idle)) \<noteq> None"
  by (simp add: example_defs finalizer_defs result_defs controller_defs)

section \<open>Synchronisation of the mirror\<close>

text \<open>
  Claim C4. The claim says that a lookup of the mirror that fails with an error other
  than NotFound makes \<open>createOrUpdateApplication\<close> return that error. In the code the
  \<^verbatim>\<open>else\<close> branch takes every outcome of the lookup but NotFound: the error is dropped,
  the zero object stands in for the mirror, and since its specification differs from the
  desired one an update is issued with an empty resource version. With the lookup
  answering ServiceUnavailable, the function returns success when that update succeeds and
  the update's own error when it fails; the lookup's error is returned in neither case.
\<close>

theorem failed_lookup_not_returned:
  "createOrUpdateApplication (argocd (scripted (byNamespace marked (Inl unavailable))
      (Inr ''1'') (Inr ''8'') None)) marked idle =
     (None,
      \<lparr>store = (),
       calls = [(GetCall mirrorKey, Some unavailable),
                (UpdateCall (foo\<lparr>Namespace := ''argocd'', ResourceVersion := []\<rparr>), None)]\<rparr>) \<and>
   createOrUpdateApplication (argocd (scripted (byNamespace marked (Inl unavailable))
      (Inr ''1'') (Inl invalid) None)) marked idle =
     (Some invalid,
      \<lparr>store = (),
       calls = [(GetCall mirrorKey, Some unavailable),
                (UpdateCall (foo\<lparr>Namespace := ''argocd'', ResourceVersion := []\<rparr>),
                 Some invalid)]\<rparr>)"
  by (simp add: example_defs finalizer_defs result_defs controller_defs emptyApplication_def
        emptySpec_def default_fields_def)

text \<open>
  Claim C5, as amended. On the update path (the lookup finds a mirror whose specification
  differs from the source's) the one write is an update of the whole desired object: the
  object generated from the source, with the external finalizer as its only finalizer when
  the source carries it and with no finalizer otherwise, under the resource version of the
  mirror found. The finalizers of the mirror found are not part of it.
\<close>

theorem update_payload_from_source:
  assumes "get (Client r) \<lparr>NamespacedName.Namespace = appNamespace r,
              NamespacedName.Name = Name resource\<rparr> (store w) = (Inr app, s)"
    and "Spec app \<noteq> Spec resource"
    and "update (Client r)
           ((fst (generateApplication resource (appNamespace r)))
              \<lparr>Finalizers := (if hasArgoFinalizer resource then [argoFinalizer] else []),
               ResourceVersion := ResourceVersion app\<rparr>) s
           = (u, s')"
  shows "calls (snd (createOrUpdateApplication r resource w)) =
           calls w @
             [(GetCall \<lparr>NamespacedName.Namespace = appNamespace r,
                        NamespacedName.Name = Name resource\<rparr>, None),
              (UpdateCall
                 ((fst (generateApplication resource (appNamespace r)))
                    \<lparr>Finalizers := (if hasArgoFinalizer resource then [argoFinalizer] else []),
                     ResourceVersion := ResourceVersion app\<rparr>), errorOf u)]"
proof -
  from assms(3) have "update (Client r)
           ((fst (desiredApplication r resource))\<lparr>ResourceVersion := ResourceVersion app\<rparr>) s
           = (u, s')"
    by (simp add: desired_payload)
  from lookup_differs [OF assms(1,2) this] show ?thesis
    by (simp add: desired_payload)
qed

theorem update_payload_from_source_witness:
  "get (Client (argocd (scripted (byNamespace deleting (Inr liveMirror)) (Inr ''1'') (Inr ''42'') None)))
      \<lparr>NamespacedName.Namespace = appNamespace (argocd (scripted
          (byNamespace deleting (Inr liveMirror)) (Inr ''1'') (Inr ''42'') None)),
        NamespacedName.Name = Name deleting\<rparr> (store idle) = (Inr liveMirror, ()) \<and>
   Spec liveMirror \<noteq> Spec deleting \<and>
   calls (snd (createOrUpdateApplication (argocd (scripted (byNamespace deleting (Inr liveMirror))
      (Inr ''1'') (Inr ''42'') None)) deleting idle)) =
     [(GetCall mirrorKey, None),
      (UpdateCall (foo\<lparr>Namespace := ''argocd'', Finalizers := [argoFinalizer],
                       ResourceVersion := ''41''\<rparr>), None)]"
  using update_payload_from_source
    [of "argocd (scripted (byNamespace deleting (Inr liveMirror)) (Inr ''1'') (Inr ''42'') None)"
        deleting idle liveMirror "()" "Inr ''42''" "()"]
  by (simp add: example_defs finalizer_defs result_defs generateApplication_def)

text \<open>
  Claim C5 as stated fails. The mirror found carries the external finalizer and an older
  specification; the source carries the controller's finalizer only. The update that
  \<open>createOrUpdateApplication\<close> issues is the whole object with an empty finalizer list:
  written to the store, it replaces the mirror's finalizers and the external one is gone.
\<close>

theorem update_strips_mirror_marker:
  "get (Client (argocd (scripted (byNamespace marked (Inr liveMirror)) (Inr ''1'') (Inr ''42'') None)))
      mirrorKey (store idle) = (Inr liveMirror, ()) \<and>
   Spec liveMirror \<noteq> Spec marked \<and>
   hasArgoFinalizer liveMirror \<and>
   calls (snd (createOrUpdateApplication (argocd (scripted (byNamespace marked (Inr liveMirror))
      (Inr ''1'') (Inr ''42'') None)) marked idle)) =
     [(GetCall mirrorKey, None),
      (UpdateCall (foo\<lparr>Namespace := ''argocd'', ResourceVersion := ''41''\<rparr>), None)] \<and>
   Finalizers (foo\<lparr>Namespace := ''argocd'', ResourceVersion := ''41''\<rparr>) = [] \<and>
   \<not> hasArgoFinalizer (foo\<lparr>Namespace := ''argocd'', ResourceVersion := ''41''\<rparr>)"
  by (simp add: example_defs finalizer_defs result_defs controller_defs)

section \<open>The guard of the target namespace\<close>

text \<open>
  Claim C6. When the fetched resource lives in the configured target namespace,
  \<open>Reconcile\<close> returns success at once: the fetch is the only call of the cycle, so there
  is no finalizer write and no create, update or delete of a mirror, and the result does
  not depend on the resource's deletion marker, finalizers or specification.
\<close>

theorem target_namespace_ignored:
  assumes "get (Client r) req (store w) = (Inr resource, s)"
    and "Namespace resource = appNamespace r"
  shows "Reconcile r req w =
    ((emptyResult, None), \<lparr>store = s, calls = calls w @ [(GetCall req, None)]\<rparr>)"
  using assms by (simp add: Reconcile_def Get_found)

theorem target_namespace_ignored_witness:
  "get (Client (argocd (scripted (\<lambda>key. Inr (foo\<lparr>Namespace := ''argocd''\<rparr>))
      (Inr ''8'') (Inr ''8'') None))) mirrorKey (store idle)
     = (Inr (foo\<lparr>Namespace := ''argocd''\<rparr>), ()) \<and>
   Namespace (foo\<lparr>Namespace := ''argocd''\<rparr>)
     = appNamespace (argocd (scripted (\<lambda>key. Inr (foo\<lparr>Namespace := ''argocd''\<rparr>))
         (Inr ''8'') (Inr ''8'') None)) \<and>
   Reconcile (argocd (scripted (\<lambda>key. Inr (foo\<lparr>Namespace := ''argocd''\<rparr>))
       (Inr ''8'') (Inr ''8'') None)) mirrorKey idle =
   ((emptyResult, None), \<lparr>store = (), calls = [(GetCall mirrorKey, None)]\<rparr>)"
  using target_namespace_ignored
    [of "argocd (scripted (\<lambda>key. Inr (foo\<lparr>Namespace := ''argocd''\<rparr>))
       (Inr ''8'') (Inr ''8'') None)" mirrorKey idle "foo\<lparr>Namespace := ''argocd''\<rparr>" "()"]
  by (simp add: scripted_def argocd_def idle_def foo_def)

section \<open>Injection of the controller's finalizer\<close>

text \<open>
  Claim C7. For a fetched live source (no deletion timestamp) outside the target
  namespace that lacks the controller's finalizer, the cycle is the fetch and one update
  of the source with that finalizer appended, and \<open>Reconcile\<close> returns with the outcome
  of that update: no validation result is returned and no mirror is looked up, created,
  updated or deleted in this cycle.
\<close>

theorem marker_injected_alone:
  assumes "get (Client r) req (store w) = (Inr resource, s)"
    and "Namespace resource \<noteq> appNamespace r"
    and "DeletionTimestamp resource = None"
    and "\<not> hasDefaultFinalizer resource"
    and "update (Client r) (resource\<lparr>Finalizers := Finalizers resource @ [defaultFinalizer]\<rparr>) s
           = (u, s')"
  shows "Reconcile r req w =
    ((emptyResult, IgnoreNotFound (errorOf u)),
     \<lparr>store = s',
      calls = calls w @
        [(GetCall req, None),
         (UpdateCall (resource\<lparr>Finalizers := Finalizers resource @ [defaultFinalizer]\<rparr>),
          errorOf u)]\<rparr>)"
  using assms
  by (simp add: Reconcile_def Get_found InjectDefaultFinalizer_def AddFinalizer_def
        hasDefaultFinalizer_def ContainsFinalizer_def Update_answer IgnoreNotFound_def
        IsNotFound_def errorOf_def split: sum.splits)

text \<open>The first cycle of the specification's scenario A: the finalizer is written to
  \<^verbatim>\<open>foo\<close> and nothing else happens.\<close>

theorem marker_injected_alone_witness:
  "get (Client (argocd (scripted (byNamespace foo (Inl notFound)) (Inr ''1'') (Inr ''8'') None)))
      fooKey (store idle) = (Inr foo, ()) \<and>
   Namespace foo \<noteq> appNamespace (argocd (scripted (byNamespace foo (Inl notFound))
      (Inr ''1'') (Inr ''8'') None)) \<and>
   DeletionTimestamp foo = None \<and> \<not> hasDefaultFinalizer foo \<and>
   Reconcile (argocd (scripted (byNamespace foo (Inl notFound)) (Inr ''1'') (Inr ''8'') None))
      fooKey idle =
     ((emptyResult, None),
      \<lparr>store = (),
       calls = [(GetCall fooKey, None),
                (UpdateCall (foo\<lparr>Finalizers := [''argoproj.io/finalizer'']\<rparr>), None)]\<rparr>)"
  using marker_injected_alone
    [of "argocd (scripted (byNamespace foo (Inl notFound)) (Inr ''1'') (Inr ''8'') None)"
        fooKey idle foo "()" "Inr ''8''" "()"]
  by (simp add: example_defs finalizer_defs result_defs)

section \<open>The decision between no write and one update\<close>

text \<open>
  Claim C8. When the lookup at the source's name in the target namespace finds a mirror,
  \<open>createOrUpdateApplication\<close> compares the mirror's specification with the source's by
  equality of the two whole specification values: the destination namespace and every
  other field, whatever the type of those fields is. If they are equal, the lookup is
  the only call and the result is success. If they differ in any field, the lookup is
  followed by exactly one update; its object has the source's specification and the
  resource version of the mirror found, and the result is the outcome of that update.
\<close>

theorem spec_diff_decides_update:
  assumes "get (Client r) \<lparr>NamespacedName.Namespace = appNamespace r,
              NamespacedName.Name = Name resource\<rparr> (store w) = (Inr app, s)"
    and "update (Client r)
           ((fst (desiredApplication r resource))\<lparr>ResourceVersion := ResourceVersion app\<rparr>) s
           = (u, s')"
  shows "(Spec app = Spec resource \<longrightarrow>
            createOrUpdateApplication r resource w =
              (None, \<lparr>store = s,
                      calls = calls w @
                        [(GetCall \<lparr>NamespacedName.Namespace = appNamespace r,
                                   NamespacedName.Name = Name resource\<rparr>, None)]\<rparr>)) \<and>
         (Spec app \<noteq> Spec resource \<longrightarrow>
            createOrUpdateApplication r resource w =
              (errorOf u,
               \<lparr>store = s',
                calls = calls w @
                  [(GetCall \<lparr>NamespacedName.Namespace = appNamespace r,
                             NamespacedName.Name = Name resource\<rparr>, None),
                   (UpdateCall ((fst (desiredApplication r resource))
                                  \<lparr>ResourceVersion := ResourceVersion app\<rparr>), errorOf u)]\<rparr>) \<and>
            Spec ((fst (desiredApplication r resource))\<lparr>ResourceVersion := ResourceVersion app\<rparr>)
              = Spec resource \<and>
            ResourceVersion
              ((fst (desiredApplication r resource))\<lparr>ResourceVersion := ResourceVersion app\<rparr>)
              = ResourceVersion app)"
  using lookup_equal [OF assms(1)] lookup_differs [OF assms(1) _ assms(2)]
  by (simp add: desired_key)

text \<open>
  Three mirrors of \<^verbatim>\<open>foo\<close>. One in sync is left alone. One that differs from
  \<^verbatim>\<open>foo\<close> only in its sync policy gets one update. One with an older project (the
  specification's scenario C) gets one update. Each update carries the specification of
  \<^verbatim>\<open>foo\<close> under the mirror's resource version \<^verbatim>\<open>41\<close>.
\<close>

theorem spec_diff_decides_update_witness:
  "Spec syncedMirror = Spec marked \<and>
   createOrUpdateApplication (argocd (scripted (byNamespace marked (Inr syncedMirror))
      (Inr ''1'') (Inr ''42'') None)) marked idle =
     (None, \<lparr>store = (), calls = [(GetCall mirrorKey, None)]\<rparr>) \<and>
   Spec driftedMirror \<noteq> Spec marked \<and>
   createOrUpdateApplication (argocd (scripted (byNamespace marked (Inr driftedMirror))
      (Inr ''1'') (Inr ''42'') None)) marked idle =
     (None,
      \<lparr>store = (),
       calls = [(GetCall mirrorKey, None),
                (UpdateCall (foo\<lparr>Namespace := ''argocd'', ResourceVersion := ''41''\<rparr>), None)]\<rparr>) \<and>
   Spec liveMirror \<noteq> Spec marked \<and>
   createOrUpdateApplication (argocd (scripted (byNamespace marked (Inr liveMirror))
      (Inr ''1'') (Inr ''42'') None)) marked idle =
     (None,
      \<lparr>store = (),
       calls = [(GetCall mirrorKey, None),
                (UpdateCall (foo\<lparr>Namespace := ''argocd'', ResourceVersion := ''41''\<rparr>), None)]\<rparr>)"
  using spec_diff_decides_update
    [of "argocd (scripted (byNamespace marked (Inr syncedMirror)) (Inr ''1'') (Inr ''42'') None)"
        marked idle syncedMirror "()" "Inr ''42''" "()"]
    spec_diff_decides_update
    [of "argocd (scripted (byNamespace marked (Inr driftedMirror)) (Inr ''1'') (Inr ''42'') None)"
        marked idle driftedMirror "()" "Inr ''42''" "()"]
    spec_diff_decides_update
    [of "argocd (scripted (byNamespace marked (Inr liveMirror)) (Inr ''1'') (Inr ''42'') None)"
        marked idle liveMirror "()" "Inr ''42''" "()"]
  by (simp add: example_defs finalizer_defs result_defs desiredApplication_def
        generateApplication_def)

section \<open>The desired mirror\<close>

text \<open>
  Claim C9. The desired mirror is a function of the source and the target namespace.
  \<open>generateApplication\<close> never fails; its object has the given namespace and the source's
  name, specification, labels, annotations, kind and API version. The object that
  \<open>createOrUpdateApplication\<close> looks up and writes is that one for the configured target
  namespace, with the external finalizer added exactly when the source carries it: it
  carries the external finalizer if and only if the source does.
\<close>

theorem desired_mirror_from_source:
  "snd (generateApplication resource namespace) = None \<and>
   Namespace (fst (generateApplication resource namespace)) = namespace \<and>
   Name (fst (generateApplication resource namespace)) = Name resource \<and>
   Spec (fst (generateApplication resource namespace)) = Spec resource \<and>
   Labels (fst (generateApplication resource namespace)) = Labels resource \<and>
   Annotations (fst (generateApplication resource namespace)) = Annotations resource \<and>
   Kind (fst (generateApplication resource namespace)) = Kind resource \<and>
   APIVersion (fst (generateApplication resource namespace)) = APIVersion resource \<and>
   snd (desiredApplication r resource) = None \<and>
   fst (desiredApplication r resource) =
     (fst (generateApplication resource (appNamespace r)))
       \<lparr>Finalizers := (if hasArgoFinalizer resource then [argoFinalizer] else [])\<rparr> \<and>
   hasArgoFinalizer (fst (desiredApplication r resource)) = hasArgoFinalizer resource"
  by (simp add: generateApplication_def desiredApplication_def hasArgoFinalizer_def
        ContainsFinalizer_def AddFinalizer_def)

section \<open>Deletion without the controller's finalizer\<close>

text \<open>
  Claim C10. On a source that lacks the controller's finalizer,
  \<open>processDefaultFinalization\<close> returns success, calls nothing and leaves the source as
  it is, an external finalizer included; and \<open>Reconcile\<close> of such a source under
  deletion, outside the target namespace, is the fetch alone and returns success.
\<close>

theorem unmarked_deletion_writes_nothing:
  assumes "\<not> hasDefaultFinalizer resource"
  shows "processDefaultFinalization r resource finalizer w = ((None, resource), w) \<and>
         (get (Client r) req (store w) = (Inr resource, s) \<and>
          Namespace resource \<noteq> appNamespace r \<and> DeletionTimestamp resource \<noteq> None \<longrightarrow>
          Reconcile r req w =
            ((emptyResult, None), \<lparr>store = s, calls = calls w @ [(GetCall req, None)]\<rparr>))"
  using assms
  by (auto simp add: processDefaultFinalization_def hasDefaultFinalizer_def Reconcile_def
        Get_found)

text \<open>\<^verbatim>\<open>foo\<close> under deletion with the external finalizer alone: nothing is written and
  the external finalizer is still on the object.\<close>

theorem unmarked_deletion_writes_nothing_witness:
  "\<not> hasDefaultFinalizer released \<and> hasArgoFinalizer released \<and>
   processDefaultFinalization
     (argocd (scripted (byNamespace released (Inl notFound)) (Inr ''1'') (Inr ''8'') None))
     released
     (finalize (argocd (scripted (byNamespace released (Inl notFound)) (Inr ''1'') (Inr ''8'') None)))
     idle = ((None, released), idle) \<and>
   get (Client (argocd (scripted (byNamespace released (Inl notFound)) (Inr ''1'') (Inr ''8'') None)))
     fooKey (store idle) = (Inr released, ()) \<and>
   Namespace released \<noteq> appNamespace (argocd (scripted (byNamespace released (Inl notFound))
     (Inr ''1'') (Inr ''8'') None)) \<and>
   DeletionTimestamp released \<noteq> None \<and>
   Reconcile (argocd (scripted (byNamespace released (Inl notFound)) (Inr ''1'') (Inr ''8'') None))
     fooKey idle =
     ((emptyResult, None), \<lparr>store = (), calls = [(GetCall fooKey, None)]\<rparr>)"
  using unmarked_deletion_writes_nothing
    [of released
        "argocd (scripted (byNamespace released (Inl notFound)) (Inr ''1'') (Inr ''8'') None)"
        "finalize (argocd (scripted (byNamespace released (Inl notFound)) (Inr ''1'') (Inr ''8'') None))"
        idle fooKey "()"]
  by (simp add: example_defs finalizer_defs)

end
